theory Spec2Isabelle
  imports Main
begin

section \<open>Values of the Go program\<close>

text \<open>
  Pointers are heap addresses; a nil pointer, a nil interface value and a nil func value
  are \<open>None\<close>. Go's \<open>uint\<close> fields are only ever compared with zero here, so they are
  natural numbers.
\<close>

type_synonym addr = nat

text \<open>\<open>errors.New(text)\<close> builds an error value that carries its message.\<close>

datatype error = errorString string

definition errors_New :: "string \<Rightarrow> error" where
  "errors_New text = errorString text"

text \<open>A call either returns or aborts the process with a run-time panic.\<close>

datatype 'a outcome = Return 'a | Panic

text \<open>
  Modelled from the spec: the strategy implementations behind the interfaces Model,
  Migrator and Speciator are declared outside \<open>ga_config.go\<close>. The spec (section 3) says
  each "exposes a \<open>Validate() -> error\<close>"; an interface value is therefore represented by
  its dynamic type together with what its \<open>Validate\<close> method returns (the method is
  taken to return, and to touch nothing in the store). The only dynamic
  type that \<open>NewGA\<close> tells apart is the struct \<open>ModSimulatedAnnealing\<close> (held by value),
  whose field \<open>GA\<close> is a pointer to a GA; every other dynamic type of a Model, a pointer to a
  \<open>ModSimulatedAnnealing\<close> included, is \<open>ModOther\<close>.
\<close>

datatype Model =
    ModSimulatedAnnealing (msaGA: "addr option") (msaValidate: "error option")
  | ModOther (modValidate: "error option")

datatype Migrator = MigImpl (migValidate: "error option")

datatype Speciator = SpecImpl (specValidate: "error option")

fun Model_Validate :: "Model \<Rightarrow> error option" where
  "Model_Validate (ModSimulatedAnnealing g v) = v"
| "Model_Validate (ModOther v) = v"

fun Migrator_Validate :: "Migrator \<Rightarrow> error option" where
  "Migrator_Validate (MigImpl v) = v"

fun Speciator_Validate :: "Speciator \<Rightarrow> error option" where
  "Speciator_Validate (SpecImpl v) = v"

text \<open>
  A method call through an interface value: calling through the nil interface is a
  nil dereference, which panics.
\<close>

fun invoke :: "'i option \<Rightarrow> ('i \<Rightarrow> 'r) \<Rightarrow> 'r outcome" where
  "invoke None method = Panic"
| "invoke (Some i) method = Return (method i)"

text \<open>
  The struct \<open>GAConfig\<close>, field by field. \<open>Logger\<close> and \<open>RNG\<close> are pointers; \<open>Callback\<close>,
  \<open>EarlyStop\<close> and \<open>GenomeJSONUnmarshaler\<close> are func values, which \<open>NewGA\<close> only copies:
  they are opaque code references.
\<close>

record GAConfig =
  NPops :: nat
  PopSize :: nat
  NGenerations :: nat
  HofSize :: nat
  Model :: "Model option"
  ParallelInit :: bool
  ParallelEval :: bool
  Migrator :: "Migrator option"
  MigFrequency :: nat
  Speciator :: "Speciator option"
  Logger :: "addr option"
  Callback :: "addr option"
  EarlyStop :: "addr option"
  RNG :: "addr option"
  GenomeJSONUnmarshaler :: "addr option"

text \<open>
  The struct \<open>GA\<close> embeds a \<open>GAConfig\<close>. Its declaration is outside \<open>ga_config.go\<close>;
  \<open>NewGA\<close> sets the embedded configuration and leaves every other field at its zero value,
  so the record keeps the embedded configuration only.
\<close>

record GA =
  GAConfig :: GAConfig

text \<open>\<open>rand.NewSource(seed)\<close> and \<open>rand.New(src)\<close>: a generator is known by its seed.\<close>

datatype Source = rngSource int

datatype Rand = Rand Source

definition rand_NewSource :: "int \<Rightarrow> Source" where
  "rand_NewSource seed = rngSource seed"

definition rand_New :: "Source \<Rightarrow> Rand" where
  "rand_New src = Rand src"

section \<open>The store\<close>

text \<open>
  The heap is the list of the objects allocated so far; an address is an index into it and
  an allocation appends. A cell holds a generator, a GA, or a \<open>GAConfig\<close> variable of some
  caller. \<open>clock\<close> is what \<open>time.Now().UnixNano()\<close> reads.
\<close>

datatype obj = RandObj Rand | GAObj GA | ConfVar GAConfig

record world =
  heap :: "obj list"
  clock :: int

definition time_Now_UnixNano :: "world \<Rightarrow> int" where
  "time_Now_UnixNano w = clock w"

definition alloc :: "obj \<Rightarrow> world \<Rightarrow> addr \<times> world" where
  "alloc x w = (length (heap w), w\<lparr>heap := heap w @ [x]\<rparr>)"

text \<open>
  The assignment \<open>ga.GAConfig.Model = msa\<close> through the pointer \<open>ga\<close>: a dangling pointer
  or one that is not to a GA is a fault.
\<close>

definition store_Model :: "addr \<Rightarrow> Model \<Rightarrow> world \<Rightarrow> world outcome" where
  "store_Model ga m w =
     (if ga < length (heap w) then
        (case heap w ! ga of
           GAObj g \<Rightarrow>
             Return (w\<lparr>heap := (heap w)[ga := GAObj (g\<lparr>GAConfig := (GAConfig g)\<lparr>Model := Some m\<rparr>\<rparr>)]\<rparr>)
         | _ \<Rightarrow> Panic)
      else Panic)"

section \<open>NewGA\<close>

text \<open>
  The result of \<open>NewGA\<close> is Go's pair \<open>(*GA, error)\<close> together with the store it leaves.
  The receiver \<open>conf\<close> is passed by value: the assignments to \<open>conf.RNG\<close> change the
  callee's copy, which the definitions below thread along.
\<close>

type_synonym NewGA_result = "((addr option \<times> error option) \<times> world) outcome"

text \<open>Lines 39 to 41: the default randomness source.\<close>

definition default_RNG :: "GAConfig \<Rightarrow> world \<Rightarrow> GAConfig \<times> world" where
  "default_RNG conf w =
     (if RNG conf = None then
        (let (r, w') = alloc (RandObj (rand_New (rand_NewSource (time_Now_UnixNano w)))) w
         in (conf\<lparr>RNG := Some r\<rparr>, w'))
      else (conf, w))"

text \<open>
  Lines 43 to 73: the checks, in the order of the source. The value is the error of the
  first check that fails, \<open>None\<close> when all pass.
\<close>

definition check_Migrator :: "GAConfig \<Rightarrow> error option outcome" where
  "check_Migrator conf =
     (if Migrator conf \<noteq> None then
        (case invoke (Migrator conf) Migrator_Validate of
           Panic \<Rightarrow> Panic
         | Return (Some migErr) \<Rightarrow> Return (Some migErr)
         | Return None \<Rightarrow>
             if MigFrequency conf = 0
             then Return (Some (errors_New ''MigFrequency should be higher than 0''))
             else Return None)
      else Return None)"

definition check_Speciator :: "GAConfig \<Rightarrow> error option outcome" where
  "check_Speciator conf =
     (if Speciator conf \<noteq> None then
        (case invoke (Speciator conf) Speciator_Validate of
           Panic \<Rightarrow> Panic
         | Return (Some specErr) \<Rightarrow> Return (Some specErr)
         | Return None \<Rightarrow> Return None)
      else Return None)"

definition check_conf :: "GAConfig \<Rightarrow> error option outcome" where
  "check_conf conf =
     (if NPops conf = 0 then
        Return (Some (errors_New ''NPops has to be strictly higher than 0''))
      else if PopSize conf = 0 then
        Return (Some (errors_New ''PopSize has to be strictly higher than 0''))
      else if NGenerations conf = 0 then
        Return (Some (errors_New ''NGenerations has to be strictly higher than 0''))
      else if HofSize conf = 0 then
        Return (Some (errors_New ''HofSize has to be strictly higher than 0''))
      else if Model conf = None then
        Return (Some (errors_New ''model has to be provided''))
      else
        (case invoke (Model conf) Model_Validate of
           Panic \<Rightarrow> Panic
         | Return (Some modelErr) \<Rightarrow> Return (Some modelErr)
         | Return None \<Rightarrow>
             (case check_Migrator conf of
                Panic \<Rightarrow> Panic
              | Return (Some e) \<Rightarrow> Return (Some e)
              | Return None \<Rightarrow> check_Speciator conf)))"

text \<open>
  Lines 75 to 83: the GA is allocated with the callee's configuration; when the Model is
  a \<open>ModSimulatedAnnealing\<close>, the copy \<open>msa\<close> gets the new pointer and is stored back
  through it.
\<close>

definition init_GA :: "GAConfig \<Rightarrow> world \<Rightarrow> NewGA_result" where
  "init_GA conf w =
     (let (ga, w1) = alloc (GAObj \<lparr>GAConfig = conf\<rparr>) w in
      case Model conf of
        Some (ModSimulatedAnnealing g v) \<Rightarrow>
          (let msa = ModSimulatedAnnealing (Some ga) v in
           case store_Model ga msa w1 of
             Panic \<Rightarrow> Panic
           | Return w2 \<Rightarrow> Return ((Some ga, None), w2))
      | _ \<Rightarrow> Return ((Some ga, None), w1))"

definition NewGA :: "GAConfig \<Rightarrow> world \<Rightarrow> NewGA_result" where
  "NewGA conf0 w0 =
     (let (conf, w) = default_RNG conf0 w0 in
      case check_conf conf of
        Panic \<Rightarrow> Panic
      | Return (Some err) \<Rightarrow> Return ((None, Some err), w)
      | Return None \<Rightarrow> init_GA conf w)"

text \<open>
  A call site \<open>conf.NewGA()\<close> whose \<open>conf\<close> is the variable at address \<open>c\<close>: the value
  receiver is a copy of the variable's contents.
\<close>

definition call_NewGA :: "addr \<Rightarrow> world \<Rightarrow> NewGA_result" where
  "call_NewGA c w =
     (if c < length (heap w) then
        (case heap w ! c of
           ConfVar conf \<Rightarrow> NewGA conf w
         | _ \<Rightarrow> Panic)
      else Panic)"

text \<open>
  All checks of lines 43 to 73 pass: the four sizes are positive, the Model is present
  and validates, a Migrator, when present, validates and comes with a positive
  \<open>MigFrequency\<close>, and a Speciator, when present, validates.
\<close>

definition passes_checks :: "GAConfig \<Rightarrow> bool" where
  "passes_checks conf \<longleftrightarrow>
     0 < NPops conf \<and> 0 < PopSize conf \<and> 0 < NGenerations conf \<and> 0 < HofSize conf \<and>
     (case Model conf of None \<Rightarrow> False | Some m \<Rightarrow> Model_Validate m = None) \<and>
     (case Migrator conf of None \<Rightarrow> True
        | Some g \<Rightarrow> Migrator_Validate g = None \<and> 0 < MigFrequency conf) \<and>
     (case Speciator conf of None \<Rightarrow> True | Some s \<Rightarrow> Speciator_Validate s = None)"

text \<open>The messages of the errors that \<open>NewGA\<close> builds itself (lines 44 to 66).\<close>

definition NewGA_messages :: "string list" where
  "NewGA_messages =
     [''NPops has to be strictly higher than 0'',
      ''PopSize has to be strictly higher than 0'',
      ''NGenerations has to be strictly higher than 0'',
      ''HofSize has to be strictly higher than 0'',
      ''model has to be provided'',
      ''MigFrequency should be higher than 0'']"

text \<open>
  The Model that the returned GA holds (lines 78 to 81): a \<open>ModSimulatedAnnealing\<close> with its
  \<open>GA\<close> field set to the new pointer, any other Model as it was.
\<close>

definition installed_Model :: "addr \<Rightarrow> Model option \<Rightarrow> Model option" where
  "installed_Model ga mo =
     (case mo of
        Some (ModSimulatedAnnealing g v) \<Rightarrow> Some (ModSimulatedAnnealing (Some ga) v)
      | other \<Rightarrow> other)"

text \<open>Sample inputs: a configuration like that of \<open>NewDefaultGAConfig\<close>, and a store.\<close>

definition sample_conf :: GAConfig where
  "sample_conf =
     \<lparr>NPops = 1, PopSize = 30, NGenerations = 50, HofSize = 1,
      Model = Some (ModOther None), ParallelInit = False, ParallelEval = False,
      Migrator = None, MigFrequency = 0, Speciator = None, Logger = None,
      Callback = None, EarlyStop = None, RNG = None, GenomeJSONUnmarshaler = None\<rparr>"

definition sample_world :: world where
  "sample_world = \<lparr>heap = [RandObj (Rand (rngSource 42))], clock = 1700000000\<rparr>"

text \<open>A store in which a caller's variable, at address 0, holds the configuration.\<close>

definition caller_world :: world where
  "caller_world =
     \<lparr>heap = [ConfVar (sample_conf\<lparr>Model := Some (ModSimulatedAnnealing None None)\<rparr>)],
      clock = 1700000000\<rparr>"

section \<open>What the checks compute\<close>

lemma check_Migrator_cases:
  "check_Migrator conf =
     (case Migrator conf of
        None \<Rightarrow> Return None
      | Some g \<Rightarrow>
          (case Migrator_Validate g of
             Some e \<Rightarrow> Return (Some e)
           | None \<Rightarrow> if MigFrequency conf = 0
               then Return (Some (errors_New ''MigFrequency should be higher than 0''))
               else Return None))"
  by (simp add: check_Migrator_def split: option.splits)

lemma check_Speciator_cases:
  "check_Speciator conf =
     (case Speciator conf of None \<Rightarrow> Return None | Some s \<Rightarrow> Return (Speciator_Validate s))"
  by (simp add: check_Speciator_def split: option.splits)

lemma check_conf_cases:
  "check_conf conf =
     (if NPops conf = 0 then
        Return (Some (errors_New ''NPops has to be strictly higher than 0''))
      else if PopSize conf = 0 then
        Return (Some (errors_New ''PopSize has to be strictly higher than 0''))
      else if NGenerations conf = 0 then
        Return (Some (errors_New ''NGenerations has to be strictly higher than 0''))
      else if HofSize conf = 0 then
        Return (Some (errors_New ''HofSize has to be strictly higher than 0''))
      else
        (case Model conf of
           None \<Rightarrow> Return (Some (errors_New ''model has to be provided''))
         | Some m \<Rightarrow>
             (case Model_Validate m of
                Some modelErr \<Rightarrow> Return (Some modelErr)
              | None \<Rightarrow>
                  (case check_Migrator conf of
                     Return None \<Rightarrow> check_Speciator conf
                   | other \<Rightarrow> other))))"
  by (cases "Model conf")
     (simp_all add: check_conf_def check_Migrator_cases split: option.splits)

lemma check_conf_returns: "\<exists>r. check_conf conf = Return r"
  by (simp add: check_conf_cases check_Migrator_cases check_Speciator_cases split: option.splits)

lemma check_conf_passes: "check_conf conf = Return None \<longleftrightarrow> passes_checks conf"
  by (auto simp add: check_conf_cases check_Migrator_cases check_Speciator_cases passes_checks_def split: option.splits)

lemma check_conf_RNG: "check_conf (conf\<lparr>RNG := r\<rparr>) = check_conf conf"
  by (simp add: check_conf_cases check_Migrator_cases check_Speciator_cases split: option.splits)

lemma init_GA_returns:
  "init_GA conf w =
     Return ((Some (length (heap w)), None),
       w\<lparr>heap := heap w @ [GAObj \<lparr>GAConfig = conf\<lparr>Model :=
          (case Model conf of
             Some (ModSimulatedAnnealing g v) \<Rightarrow> Some (ModSimulatedAnnealing (Some (length (heap w))) v)
           | m \<Rightarrow> m)\<rparr>\<rparr>]\<rparr>)"
  by (simp add: init_GA_def alloc_def store_Model_def split: option.splits Model.splits)


lemma default_RNG_fst:
  "fst (default_RNG conf w) =
     conf\<lparr>RNG := (if RNG conf = None then Some (length (heap w)) else RNG conf)\<rparr>"
  by (simp add: default_RNG_def alloc_def)

lemma default_RNG_snd:
  "snd (default_RNG conf w) =
     (if RNG conf = None
      then w\<lparr>heap := heap w @ [RandObj (rand_New (rand_NewSource (clock w)))]\<rparr>
      else w)"
  by (simp add: default_RNG_def alloc_def time_Now_UnixNano_def)

lemma NewGA_unfold:
  "NewGA conf w =
     (case check_conf conf of
        Panic \<Rightarrow> Panic
      | Return (Some err) \<Rightarrow> Return ((None, Some err), snd (default_RNG conf w))
      | Return None \<Rightarrow> init_GA (fst (default_RNG conf w)) (snd (default_RNG conf w)))"
  by (simp add: NewGA_def case_prod_beta default_RNG_fst check_conf_RNG)

lemma NewGA_error:
  "check_conf conf = Return (Some e) \<Longrightarrow>
   NewGA conf w = Return ((None, Some e), snd (default_RNG conf w))"
  by (simp add: NewGA_unfold)

lemma NewGA_success:
  "passes_checks conf \<Longrightarrow>
   NewGA conf w = init_GA (fst (default_RNG conf w)) (snd (default_RNG conf w))"
  using check_conf_passes [of conf] by (simp add: NewGA_unfold)

lemma NewGA_success_result:
  assumes "passes_checks conf"
  shows "NewGA conf w =
     Return ((Some (length (heap (snd (default_RNG conf w)))), None),
       (snd (default_RNG conf w))\<lparr>heap := heap (snd (default_RNG conf w)) @
          [GAObj \<lparr>GAConfig = (fst (default_RNG conf w))\<lparr>Model :=
              installed_Model (length (heap (snd (default_RNG conf w)))) (Model conf)\<rparr>\<rparr>]\<rparr>)"
proof -
  have "Model (fst (default_RNG conf w)) = Model conf"
    by (simp add: default_RNG_fst)
  then show ?thesis
    using assms by (simp add: NewGA_success init_GA_returns installed_Model_def)
qed

lemma heap_default_RNG:
  "heap (snd (default_RNG conf w)) =
     (if RNG conf = None then heap w @ [RandObj (rand_New (rand_NewSource (clock w)))]
      else heap w)"
  by (simp add: default_RNG_snd)

lemma NewGA_extends_heap:
  "\<exists>r w'. NewGA conf w = Return (r, w') \<and>
      length (heap w) \<le> length (heap w') \<and> take (length (heap w)) (heap w') = heap w \<and>
      clock w' = clock w"
proof (cases "check_conf conf")
  case (Return res)
  show ?thesis
  proof (cases res)
    case None
    with Return have "passes_checks conf"
      by (simp add: check_conf_passes)
    then show ?thesis
      by (simp add: NewGA_success_result heap_default_RNG default_RNG_snd)
  next
    case (Some err)
    with Return show ?thesis
      by (simp add: NewGA_unfold default_RNG_snd)
  qed
next
  case Panic
  with check_conf_returns [of conf] show ?thesis
    by simp
qed

lemma NewGA_embedded_conf:
  assumes "NewGA conf w = Return ((Some ga, e), w')"
  shows "length (heap w) \<le> ga \<and> ga < length (heap w') \<and>
         heap w' ! ga = GAObj \<lparr>GAConfig = conf
           \<lparr>RNG := (if RNG conf = None then Some (length (heap w)) else RNG conf),
            Model := installed_Model ga (Model conf)\<rparr>\<rparr>"
proof (cases "passes_checks conf")
  case True
  with assms show ?thesis
    by (auto simp add: NewGA_success_result default_RNG_fst heap_default_RNG nth_append)
next
  case False
  then obtain err where "check_conf conf = Return (Some err)"
    using check_conf_returns [of conf] check_conf_passes [of conf]
    by (cases "check_conf conf") auto
  with assms show ?thesis
    by (simp add: NewGA_unfold)
qed

section \<open>The claims\<close>

text \<open>
  Claim C1. When \<open>NPops\<close>, \<open>PopSize\<close>, \<open>NGenerations\<close> or \<open>HofSize\<close> is zero, or the
  Model is absent, or a Migrator is set while \<open>MigFrequency\<close> is zero, \<open>NewGA\<close> returns a
  non-nil error: one of its own six messages, or the error that the Model's or the
  Migrator's \<open>Validate\<close> returned.
\<close>

theorem NewGA_rejects_invalid_conf:
  assumes "NPops conf = 0 \<or> PopSize conf = 0 \<or> NGenerations conf = 0 \<or> HofSize conf = 0 \<or>
           Model conf = None \<or> (Migrator conf \<noteq> None \<and> MigFrequency conf = 0)"
  shows "\<exists>e w'. NewGA conf w = Return ((None, Some e), w') \<and>
           (e \<in> errors_New ` set NewGA_messages \<or>
            (\<exists>m. Model conf = Some m \<and> Model_Validate m = Some e) \<or>
            (\<exists>g. Migrator conf = Some g \<and> Migrator_Validate g = Some e))"
proof -
  have "\<exists>e. check_conf conf = Return (Some e) \<and>
           (e \<in> errors_New ` set NewGA_messages \<or>
            (\<exists>m. Model conf = Some m \<and> Model_Validate m = Some e) \<or>
            (\<exists>g. Migrator conf = Some g \<and> Migrator_Validate g = Some e))"
    using assms
    by (auto simp add: check_conf_cases check_Migrator_cases NewGA_messages_def
        split: option.splits)
  then show ?thesis
    using NewGA_error by blast
qed

theorem NewGA_rejects_invalid_conf_witness:
  "PopSize (sample_conf\<lparr>PopSize := 0\<rparr>) = 0 \<and>
   Migrator (sample_conf\<lparr>Migrator := Some (MigImpl None)\<rparr>) \<noteq> None \<and>
   MigFrequency (sample_conf\<lparr>Migrator := Some (MigImpl None)\<rparr>) = 0 \<and>
   (\<exists>e w'. NewGA (sample_conf\<lparr>PopSize := 0\<rparr>) sample_world = Return ((None, Some e), w')) \<and>
   (\<exists>e w'. NewGA (sample_conf\<lparr>Migrator := Some (MigImpl None)\<rparr>) sample_world
       = Return ((None, Some e), w'))"
  using NewGA_rejects_invalid_conf [of "sample_conf\<lparr>PopSize := 0\<rparr>" sample_world]
    NewGA_rejects_invalid_conf [of "sample_conf\<lparr>Migrator := Some (MigImpl None)\<rparr>" sample_world]
  by (simp add: sample_conf_def) blast

text \<open>
  Claim C2. \<open>NewGA\<close> always returns, it never panics, and whenever the error it returns
  is non-nil the GA pointer it returns is nil.
\<close>

theorem NewGA_fails_closed:
  "\<exists>g e w'. NewGA conf w = Return ((g, e), w') \<and> (e \<noteq> None \<longrightarrow> g = None)"
proof (cases "check_conf conf")
  case (Return r)
  show ?thesis
  proof (cases r)
    case None
    with Return show ?thesis
      by (simp add: NewGA_unfold init_GA_returns)
  next
    case (Some err)
    with Return show ?thesis
      by (simp add: NewGA_unfold)
  qed
next
  case Panic
  with check_conf_returns [of conf] show ?thesis
    by simp
qed

theorem NewGA_fails_closed_witness:
  "\<exists>g e w'. NewGA (sample_conf\<lparr>HofSize := 0\<rparr>) sample_world = Return ((g, e), w') \<and>
     e \<noteq> None \<and> g = None"
proof -
  have "check_conf (sample_conf\<lparr>HofSize := 0\<rparr>)
          = Return (Some (errors_New ''HofSize has to be strictly higher than 0''))"
    by (simp add: check_conf_cases sample_conf_def)
  then have "\<exists>w'. NewGA (sample_conf\<lparr>HofSize := 0\<rparr>) sample_world
      = Return ((None, Some (errors_New ''HofSize has to be strictly higher than 0'')), w')"
    by (simp add: NewGA_unfold)
  with NewGA_fails_closed [of "sample_conf\<lparr>HofSize := 0\<rparr>" sample_world]
  show ?thesis by auto
qed

text \<open>
  Claim C6 as stated fails: the sizes are checked before any \<open>Validate\<close> runs. With
  \<open>NPops = 0\<close> and a Model whose \<open>Validate\<close> returns an error, \<open>NewGA\<close> returns its own
  \<open>NPops\<close> error, not the Model's.
\<close>

theorem NewGA_Validate_error_masked:
  "Model (sample_conf\<lparr>NPops := 0, Model := Some (ModOther (Some (errorString ''bad rate''))),
       RNG := Some 0\<rparr>) = Some (ModOther (Some (errorString ''bad rate''))) \<and>
   Model_Validate (ModOther (Some (errorString ''bad rate''))) = Some (errorString ''bad rate'') \<and>
   NewGA (sample_conf\<lparr>NPops := 0, Model := Some (ModOther (Some (errorString ''bad rate''))),
       RNG := Some 0\<rparr>) sample_world
     = Return ((None, Some (errorString ''NPops has to be strictly higher than 0'')), sample_world) \<and>
   errorString ''NPops has to be strictly higher than 0'' \<noteq> errorString ''bad rate''"
  by (simp add: NewGA_unfold check_conf_cases default_RNG_snd sample_conf_def errors_New_def)

text \<open>
  Claim C6, amended. Let the four sizes be positive and the Model present. If the Model's
  \<open>Validate\<close> returns an error, \<open>NewGA\<close> returns exactly it. If the Model validates and a
  Migrator is present whose \<open>Validate\<close> returns an error, \<open>NewGA\<close> returns exactly it. If
  the Model validates, the Migrator is absent or validates with a positive \<open>MigFrequency\<close>,
  and a Speciator is present whose \<open>Validate\<close> returns an error, \<open>NewGA\<close> returns exactly
  it. In each case the validation happens inside \<open>NewGA\<close>, which returns no GA.
\<close>

theorem NewGA_returns_first_Validate_error:
  assumes "0 < NPops conf" and "0 < PopSize conf" and "0 < NGenerations conf"
    and "0 < HofSize conf" and "Model conf = Some m"
  shows "(Model_Validate m = Some e \<longrightarrow>
            (\<exists>w'. NewGA conf w = Return ((None, Some e), w'))) \<and>
         (Model_Validate m = None \<and> Migrator conf = Some g \<and> Migrator_Validate g = Some e \<longrightarrow>
            (\<exists>w'. NewGA conf w = Return ((None, Some e), w'))) \<and>
         (Model_Validate m = None \<and>
          (Migrator conf = None \<or>
           (\<exists>g'. Migrator conf = Some g' \<and> Migrator_Validate g' = None \<and> 0 < MigFrequency conf)) \<and>
          Speciator conf = Some s \<and> Speciator_Validate s = Some e \<longrightarrow>
            (\<exists>w'. NewGA conf w = Return ((None, Some e), w')))"
proof (intro conjI impI)
  assume "Model_Validate m = Some e"
  with assms have "check_conf conf = Return (Some e)"
    by (simp add: check_conf_cases)
  then show "\<exists>w'. NewGA conf w = Return ((None, Some e), w')"
    by (simp add: NewGA_error)
next
  assume "Model_Validate m = None \<and> Migrator conf = Some g \<and> Migrator_Validate g = Some e"
  with assms have "check_conf conf = Return (Some e)"
    by (simp add: check_conf_cases check_Migrator_cases)
  then show "\<exists>w'. NewGA conf w = Return ((None, Some e), w')"
    by (simp add: NewGA_error)
next
  assume "Model_Validate m = None \<and>
          (Migrator conf = None \<or>
           (\<exists>g'. Migrator conf = Some g' \<and> Migrator_Validate g' = None \<and> 0 < MigFrequency conf)) \<and>
          Speciator conf = Some s \<and> Speciator_Validate s = Some e"
  with assms have "check_conf conf = Return (Some e)"
    by (auto simp add: check_conf_cases check_Migrator_cases check_Speciator_cases)
  then show "\<exists>w'. NewGA conf w = Return ((None, Some e), w')"
    by (simp add: NewGA_error)
qed

theorem NewGA_returns_first_Validate_error_witness:
  "(\<exists>w'. NewGA (sample_conf\<lparr>Model := Some (ModOther (Some (errorString ''bad rate'')))\<rparr>)
        sample_world = Return ((None, Some (errorString ''bad rate'')), w')) \<and>
   (\<exists>w'. NewGA (sample_conf\<lparr>Migrator := Some (MigImpl (Some (errorString ''bad ring'')))\<rparr>)
        sample_world = Return ((None, Some (errorString ''bad ring'')), w')) \<and>
   (\<exists>w'. NewGA (sample_conf\<lparr>Speciator := Some (SpecImpl (Some (errorString ''bad k'')))\<rparr>)
        sample_world = Return ((None, Some (errorString ''bad k'')), w'))"
  using
    NewGA_returns_first_Validate_error
      [where conf = "sample_conf\<lparr>Model := Some (ModOther (Some (errorString ''bad rate'')))\<rparr>"
         and m = "ModOther (Some (errorString ''bad rate''))"
         and e = "errorString ''bad rate''" and w = sample_world]
    NewGA_returns_first_Validate_error
      [where conf = "sample_conf\<lparr>Migrator := Some (MigImpl (Some (errorString ''bad ring'')))\<rparr>"
         and m = "ModOther None" and g = "MigImpl (Some (errorString ''bad ring''))"
         and e = "errorString ''bad ring''" and w = sample_world]
    NewGA_returns_first_Validate_error
      [where conf = "sample_conf\<lparr>Speciator := Some (SpecImpl (Some (errorString ''bad k'')))\<rparr>"
         and m = "ModOther None" and s = "SpecImpl (Some (errorString ''bad k''))"
         and e = "errorString ''bad k''" and w = sample_world]
  by (simp add: sample_conf_def)

text \<open>
  Claim C7. With no Migrator, \<open>MigFrequency = 0\<close> is not an error: when the sizes are
  positive, the Model is present and validates and the Speciator is absent or validates,
  \<open>NewGA\<close> returns a pointer to a GA and a nil error.
\<close>

theorem NewGA_without_Migrator_ignores_MigFrequency:
  assumes "0 < NPops conf" and "0 < PopSize conf" and "0 < NGenerations conf"
    and "0 < HofSize conf" and "Model conf = Some m" and "Model_Validate m = None"
    and "Migrator conf = None" and "MigFrequency conf = 0"
    and "Speciator conf = None \<or> (\<exists>s. Speciator conf = Some s \<and> Speciator_Validate s = None)"
  shows "\<exists>ga w' g. NewGA conf w = Return ((Some ga, None), w') \<and>
           ga < length (heap w') \<and> heap w' ! ga = GAObj g"
proof -
  from assms have "passes_checks conf"
    by (auto simp add: passes_checks_def)
  then show ?thesis
    by (simp add: NewGA_success_result)
qed

theorem NewGA_without_Migrator_ignores_MigFrequency_witness:
  "Migrator sample_conf = None \<and> MigFrequency sample_conf = 0 \<and>
   (\<exists>ga w' g. NewGA sample_conf sample_world = Return ((Some ga, None), w') \<and>
           ga < length (heap w') \<and> heap w' ! ga = GAObj g)"
  using NewGA_without_Migrator_ignores_MigFrequency
      [where conf = sample_conf and m = "ModOther None" and w = sample_world]
  by (simp add: sample_conf_def)

text \<open>
  Claim C8. For a configuration that passes all checks and has no \<open>RNG\<close>, \<open>NewGA\<close>
  succeeds and the configuration of the returned GA points to a generator that \<open>NewGA\<close>
  has newly allocated and seeded with the clock's \<open>UnixNano\<close> reading.
\<close>

theorem NewGA_default_RNG:
  assumes "passes_checks conf" and "RNG conf = None"
  shows "\<exists>ga w' g r. NewGA conf w = Return ((Some ga, None), w') \<and>
           ga < length (heap w') \<and> heap w' ! ga = GAObj g \<and>
           RNG (GAConfig g) = Some r \<and> length (heap w) \<le> r \<and> r < length (heap w') \<and>
           heap w' ! r = RandObj (rand_New (rand_NewSource (time_Now_UnixNano w)))"
  using assms
  by (simp add: NewGA_success_result default_RNG_fst heap_default_RNG nth_append
      time_Now_UnixNano_def)

theorem NewGA_default_RNG_witness:
  "passes_checks sample_conf \<and> RNG sample_conf = None \<and>
   (\<exists>ga w' g r. NewGA sample_conf sample_world = Return ((Some ga, None), w') \<and>
           heap w' ! ga = GAObj g \<and> RNG (GAConfig g) = Some r \<and>
           heap w' ! r = RandObj (Rand (rngSource 1700000000)))"
proof -
  have p: "passes_checks sample_conf"
    by (simp add: passes_checks_def sample_conf_def)
  have r: "RNG sample_conf = None"
    by (simp add: sample_conf_def)
  have "time_Now_UnixNano sample_world = 1700000000"
    by (simp add: time_Now_UnixNano_def sample_world_def)
  with NewGA_default_RNG [OF p r, of sample_world] p r show ?thesis
    by (auto simp add: rand_New_def rand_NewSource_def)
qed

text \<open>
  Claim C9. For a configuration that passes all checks and whose Model is a
  \<open>ModSimulatedAnnealing\<close>, the GA that \<open>NewGA\<close> returns holds a \<open>ModSimulatedAnnealing\<close>
  whose \<open>GA\<close> field is the returned pointer itself.
\<close>

theorem NewGA_injects_GA_into_ModSimulatedAnnealing:
  assumes "passes_checks conf" and "Model conf = Some (ModSimulatedAnnealing g0 v)"
  shows "\<exists>ga w' g. NewGA conf w = Return ((Some ga, None), w') \<and>
           ga < length (heap w') \<and> heap w' ! ga = GAObj g \<and>
           Model (GAConfig g) = Some (ModSimulatedAnnealing (Some ga) v)"
  using assms
  by (simp add: NewGA_success_result installed_Model_def)

theorem NewGA_injects_GA_into_ModSimulatedAnnealing_witness:
  "passes_checks (sample_conf\<lparr>Model := Some (ModSimulatedAnnealing None None)\<rparr>) \<and>
   (\<exists>ga w' g. NewGA (sample_conf\<lparr>Model := Some (ModSimulatedAnnealing None None)\<rparr>) sample_world
        = Return ((Some ga, None), w') \<and>
      heap w' ! ga = GAObj g \<and> Model (GAConfig g) = Some (ModSimulatedAnnealing (Some ga) None))"
proof -
  have p: "passes_checks (sample_conf\<lparr>Model := Some (ModSimulatedAnnealing None None)\<rparr>)"
    by (simp add: passes_checks_def sample_conf_def)
  have m: "Model (sample_conf\<lparr>Model := Some (ModSimulatedAnnealing None None)\<rparr>)
             = Some (ModSimulatedAnnealing None None)"
    by simp
  from NewGA_injects_GA_into_ModSimulatedAnnealing [OF p m, of sample_world] p show ?thesis
    by blast
qed

text \<open>
  Claim C10. A call \<open>conf.NewGA()\<close> leaves the caller's variable \<open>conf\<close> as it was, and
  every object that existed before the call with it: the store only grows. When a GA is
  returned it is a new object, and its embedded configuration is the caller's except for
  the \<open>RNG\<close>, defaulted when it was nil, and the Model, replaced when it is a
  \<open>ModSimulatedAnnealing\<close>.
\<close>

theorem NewGA_leaves_caller_conf:
  assumes "c < length (heap w)" and "heap w ! c = ConfVar conf"
  shows "\<exists>ga e w'. call_NewGA c w = Return ((ga, e), w') \<and>
           heap w' ! c = ConfVar conf \<and>
           take (length (heap w)) (heap w') = heap w \<and>
           (\<forall>a. ga = Some a \<longrightarrow>
              length (heap w) \<le> a \<and> a < length (heap w') \<and>
              heap w' ! a = GAObj \<lparr>GAConfig = conf
                \<lparr>RNG := (if RNG conf = None then Some (length (heap w)) else RNG conf),
                 Model := installed_Model a (Model conf)\<rparr>\<rparr>)"
proof -
  from NewGA_extends_heap [of conf w] obtain ga e w' where
    r: "NewGA conf w = Return ((ga, e), w')" and
    t: "take (length (heap w)) (heap w') = heap w"
    by auto
  from assms(1) have "heap w' ! c = take (length (heap w)) (heap w') ! c"
    by simp
  with t assms(2) have "heap w' ! c = ConfVar conf"
    by simp
  moreover from assms r have "call_NewGA c w = Return ((ga, e), w')"
    by (simp add: call_NewGA_def)
  moreover have "\<forall>a. ga = Some a \<longrightarrow>
              length (heap w) \<le> a \<and> a < length (heap w') \<and>
              heap w' ! a = GAObj \<lparr>GAConfig = conf
                \<lparr>RNG := (if RNG conf = None then Some (length (heap w)) else RNG conf),
                 Model := installed_Model a (Model conf)\<rparr>\<rparr>"
    using r NewGA_embedded_conf by blast
  ultimately show ?thesis
    using t by blast
qed

theorem NewGA_leaves_caller_conf_witness:
  "0 < length (heap caller_world) \<and>
   (\<exists>e w'. call_NewGA 0 caller_world = Return ((Some 2, e), w') \<and>
      heap w' ! 0 = ConfVar (sample_conf\<lparr>Model := Some (ModSimulatedAnnealing None None)\<rparr>) \<and>
      heap w' ! 2 = GAObj \<lparr>GAConfig = sample_conf
                \<lparr>RNG := Some 1, Model := Some (ModSimulatedAnnealing (Some 2) None)\<rparr>\<rparr>)"
proof -
  let ?conf = "sample_conf\<lparr>Model := Some (ModSimulatedAnnealing None None)\<rparr>"
  have l: "0 < length (heap caller_world)"
    by (simp add: caller_world_def)
  have v: "heap caller_world ! 0 = ConfVar ?conf"
    by (simp add: caller_world_def)
  have p: "passes_checks ?conf"
    by (simp add: passes_checks_def sample_conf_def)
  have "length (heap (snd (default_RNG ?conf caller_world))) = 2"
    by (simp add: heap_default_RNG sample_conf_def caller_world_def)
  with NewGA_success_result [OF p, of caller_world]
  have "\<exists>w'. NewGA ?conf caller_world = Return ((Some 2, None), w')"
    by simp
  then have "\<exists>w'. call_NewGA 0 caller_world = Return ((Some 2, None), w')"
    by (simp add: call_NewGA_def caller_world_def)
  with NewGA_leaves_caller_conf [OF l v] show ?thesis
    using l by (auto simp add: installed_Model_def sample_conf_def caller_world_def)
qed

end
